theory Spec2Isabelle
  imports Complex_Main
begin

section \<open>Python values, exceptions and calls to external components\<close>

text \<open>
  The backend consists of \<^verbatim>\<open>audio_processor.py\<close> (waveform loading, quality gate,
  length and amplitude normalisation, feature aggregation) and \<^verbatim>\<open>main.py\<close>
  (artifact loading and the \<^verbatim>\<open>/predict\<close> handler). Samples, features and
  probabilities are numpy floats in the source; they are idealised as \<^typ>\<open>real\<close> here
  wherever rounding changes only a value. The energy of line 31 of
  \<^verbatim>\<open>audio_processor.py\<close> decides a branch, so there numpy's float32 operations are
  taken as they are, as parameters, with \<open>None\<close> for \<^verbatim>\<open>nan\<close>.

  A Python exception is a value carrying \<^verbatim>\<open>str(e)\<close>. A computation that can raise
  returns \<open>pyerror + 'a\<close>, with \<open>Inl\<close> for the exception.
\<close>

datatype pyerror = PyError string

type_synonym bytes = string
type_synonym waveform = "real list"
type_synonym matrix = "real list list"

text \<open>
  Calls that leave the repository's own code (librosa, the temporary file and its
  removal, the scaler and the classifier) are recorded, in the order in which they are
  made.
\<close>

datatype call =
    TmpWrite
  | LibrosaLoad
  | Mfcc
  | Delta nat
  | ScalerTransform
  | ModelPredict
  | ModelPredictProba
  | OsUnlink

type_synonym 'a py = "call list \<times> (pyerror + 'a)"

definition ret :: "'a \<Rightarrow> 'a py" where
  "ret x = ([], Inr x)"

definition lift :: "pyerror + 'a \<Rightarrow> 'a py" where
  "lift r = ([], r)"

definition extern :: "call \<Rightarrow> pyerror + 'a \<Rightarrow> 'a py" where
  "extern c r = ([c], r)"

definition bind :: "'a py \<Rightarrow> ('a \<Rightarrow> 'b py) \<Rightarrow> 'b py" where
  "bind m f =
     (case m of
        (t, Inl e) \<Rightarrow> (t, Inl e)
      | (t, Inr x) \<Rightarrow> (case f x of (t', r) \<Rightarrow> (t @ t', r)))"

section \<open>audio\_processor.py\<close>

subsection \<open>Configuration\<close>

definition SAMPLE_RATE :: nat where
  "SAMPLE_RATE = 16000"

definition DURATION :: real where
  "DURATION = 3.5"

definition N_MFCC :: nat where
  "N_MFCC = 40"

definition MIN_AUDIO_ENERGY :: real where
  "MIN_AUDIO_ENERGY = 0.001"

subsection \<open>librosa, numpy's float32 arithmetic and the temporary file, as parameters\<close>

text \<open>
  \<^verbatim>\<open>librosa.load(file_path, sr, mono=True)\<close> is applied to the bytes of the file at
  \<^verbatim>\<open>file_path\<close>; \<^verbatim>\<open>librosa.feature.mfcc(y, sr, n_mfcc)\<close> and
  \<^verbatim>\<open>librosa.feature.delta(data, order)\<close> are taken as they are called. Each of them can
  raise. \<open>tmp_write\<close> stands for lines 119 to 123 of \<^verbatim>\<open>main.py\<close>: creating the temporary
  file, reading the upload and writing it; afterwards the file holds the uploaded bytes
  and \<^verbatim>\<open>tmp_file_path\<close> is bound.

  \<open>square32\<close>, \<open>mean32\<close> and \<open>sqrt32\<close> are \<^verbatim>\<open>audio ** 2\<close>, \<^verbatim>\<open>np.mean\<close> and
  \<^verbatim>\<open>np.sqrt\<close> as numpy evaluates them on a float32 array and on a float32 scalar:
  every square, every partial sum, the quotient and the root are rounded to float32, and
  the mean of an empty array is \<^verbatim>\<open>nan\<close>.

  \<open>os_unlink\<close> is the outcome of \<^verbatim>\<open>os.unlink(tmp_file_path)\<close>, the same each time it is
  tried on the file that is still there; \<open>os_path_exists\<close> is the answer of
  \<^verbatim>\<open>os.path.exists(tmp_file_path)\<close> as long as the request has not removed the file.
\<close>

record libs =
  tmp_write :: "bytes \<Rightarrow> pyerror + unit"
  os_path_exists :: bool
  os_unlink :: "pyerror + unit"
  load :: "bytes \<Rightarrow> nat \<Rightarrow> pyerror + waveform"
  square32 :: "waveform \<Rightarrow> waveform"
  mean32 :: "waveform \<Rightarrow> real option"
  sqrt32 :: "real option \<Rightarrow> real option"
  mfcc :: "waveform \<Rightarrow> nat \<Rightarrow> nat \<Rightarrow> pyerror + matrix"
  delta :: "matrix \<Rightarrow> nat \<Rightarrow> pyerror + matrix"

subsection \<open>numpy reductions\<close>

text \<open>
  The mean and the standard deviation of the feature aggregation, in exact arithmetic:
  rounding changes their values in the last place only and no branch depends on them.
  \<^verbatim>\<open>np.mean\<close> of an empty array is \<^verbatim>\<open>nan\<close> in numpy; \<open>np_mean []\<close> is \<open>0\<close> here, and
  the use below says so.
\<close>

definition np_mean :: "real list \<Rightarrow> real" where
  "np_mean xs = sum_list xs / real (length xs)"

definition np_std :: "real list \<Rightarrow> real" where
  "np_std xs = sqrt (np_mean (map (\<lambda>x. \<bar>x - np_mean xs\<bar> ^ 2) xs))"

text \<open>\<^verbatim>\<open>np.max\<close> of a zero-size array raises \<^verbatim>\<open>ValueError\<close>.\<close>

definition np_max :: "real list \<Rightarrow> pyerror + real" where
  "np_max xs =
     (if xs = [] then
        Inl (PyError ''zero-size array to reduction operation maximum which has no identity'')
      else Inr (Max (set xs)))"

subsection \<open>preprocess\_audio\<close>

text \<open>
  Line 31: \<^verbatim>\<open>audio_energy = np.sqrt(np.mean(audio ** 2))\<close>, on the float32 array that
  librosa returns. The result is a float32 number or \<^verbatim>\<open>nan\<close>.
\<close>

definition audio_energy :: "libs \<Rightarrow> waveform \<Rightarrow> real option" where
  "audio_energy lib audio = sqrt32 lib (mean32 lib (square32 lib audio))"

text \<open>
  Line 32: \<^verbatim>\<open>audio_energy < MIN_AUDIO_ENERGY\<close>. A comparison with \<^verbatim>\<open>nan\<close> is false.
  No float32 number lies between 0.001 and its float32 or float64 rounding, so for a
  float32 energy the comparison with the real number 0.001 is the comparison that numpy
  makes.
\<close>

definition too_quiet :: "libs \<Rightarrow> waveform \<Rightarrow> bool" where
  "too_quiet lib audio =
     (case audio_energy lib audio of None \<Rightarrow> False | Some e \<Rightarrow> e < MIN_AUDIO_ENERGY)"

text \<open>Line 36: \<^verbatim>\<open>int(SAMPLE_RATE * DURATION)\<close>; \<^verbatim>\<open>int\<close> truncates, the product is positive.\<close>

definition target_length :: nat where
  "target_length = nat \<lfloor>real SAMPLE_RATE * DURATION\<rfloor>"

text \<open>Lines 39 to 42: \<^verbatim>\<open>np.pad(audio, (0, n), mode='constant')\<close> or \<^verbatim>\<open>audio[:target_length]\<close>.\<close>

definition pad_or_trim :: "waveform \<Rightarrow> waveform" where
  "pad_or_trim audio =
     (if length audio < target_length
      then audio @ replicate (target_length - length audio) 0
      else take target_length audio)"

text \<open>Lines 45 and 46: peak normalisation, skipped when the peak is not positive.\<close>

definition normalize_amplitude :: "waveform \<Rightarrow> pyerror + waveform" where
  "normalize_amplitude audio =
     (case np_max (map abs audio) of
        Inl e \<Rightarrow> Inl e
      | Inr peak \<Rightarrow> Inr (if peak > 0 then map (\<lambda>x. x / peak) audio else audio))"

text \<open>The body of the \<^verbatim>\<open>try\<close> block, lines 27 to 48.\<close>

definition preprocess_body :: "libs \<Rightarrow> bytes \<Rightarrow> waveform option py" where
  "preprocess_body lib file =
     bind (extern LibrosaLoad (load lib file SAMPLE_RATE)) (\<lambda>audio.
       if too_quiet lib audio then ret None
       else bind (lift (normalize_amplitude (pad_or_trim audio))) (\<lambda>audio'.
         ret (Some audio')))"

text \<open>
  \<^verbatim>\<open>except Exception\<close>, lines 50 to 52: the exception is printed and \<^verbatim>\<open>None\<close> is
  returned, so \<open>preprocess_audio\<close> does not raise.
\<close>

definition preprocess_audio :: "libs \<Rightarrow> bytes \<Rightarrow> call list \<times> waveform option" where
  "preprocess_audio lib file =
     (case preprocess_body lib file of
        (t, Inl e) \<Rightarrow> (t, None)
      | (t, Inr audio) \<Rightarrow> (t, audio))"

subsection \<open>extract\_features\<close>

text \<open>
  Lines 66 to 97. The calls to librosa are outside any \<^verbatim>\<open>try\<close> of this file, so their
  exceptions leave \<open>extract_features\<close>.
\<close>

definition aggregate :: "matrix \<Rightarrow> matrix \<Rightarrow> matrix \<Rightarrow> real list" where
  "aggregate mfccs mfcc_delta mfcc_delta2 =
     map np_mean mfccs @ map np_std mfccs @
     map np_mean mfcc_delta @ map np_std mfcc_delta @
     map np_mean mfcc_delta2 @ map np_std mfcc_delta2"

definition extract_features :: "libs \<Rightarrow> bytes \<Rightarrow> real list option py" where
  "extract_features lib file =
     (case preprocess_audio lib file of
        (t, None) \<Rightarrow> (t, Inr None)
      | (t, Some audio) \<Rightarrow>
          bind (t, Inr ()) (\<lambda>_.
          bind (extern Mfcc (mfcc lib audio SAMPLE_RATE N_MFCC)) (\<lambda>mfccs.
          bind (extern (Delta 1) (delta lib mfccs 1)) (\<lambda>mfcc_delta.
          bind (extern (Delta 2) (delta lib mfccs 2)) (\<lambda>mfcc_delta2.
          ret (Some (aggregate mfccs mfcc_delta mfcc_delta2)))))))"

section \<open>main.py\<close>

subsection \<open>The three artifacts\<close>

text \<open>
  The scaler and the classifier are opaque fitted objects: \<open>transform\<close>, \<open>predict\<close> and
  \<open>predict_proba\<close> are taken as they are called on one feature row (a row is reshaped to
  \<open>(1, -1)\<close> and the first row of the answer is read). Each can raise. \<open>clf_classes\<close> (\<^verbatim>\<open>classes_\<close>) is
  the classifier's own list of class indices; no line of the source reads it.
\<close>

record scaler =
  transform :: "real list \<Rightarrow> pyerror + real list"

record classifier =
  clf_classes :: "int list"
  predict :: "real list \<Rightarrow> pyerror + int"
  predict_proba :: "real list \<Rightarrow> pyerror + real list"

text \<open>
  The object that \<^verbatim>\<open>label_encoder.joblib\<close> holds. \<open>has_classes\<close> says whether it has the
  attribute \<^verbatim>\<open>classes_\<close> at all: an encoder that was never fitted, or an object of another
  class, has none, and reading the attribute raises. \<open>le_classes\<close> is the value of the
  attribute when it is there.
\<close>

record label_encoder =
  has_classes :: bool
  le_classes :: "string list"

text \<open>
  Modelled from the spec: the Label-Decoder artifact is an object of an external library,
  of which the source uses \<^verbatim>\<open>classes_\<close> (here \<open>le_classes\<close>) and \<open>inverse_transform\<close>. The
  spec describes it as "an ordered list of class label strings whose positional index
  matches the Classifier's internal class indexing", with \<open>decode(index) -> label\<close>. An
  index outside the list is refused with an exception, and so is every index when the
  object has no \<^verbatim>\<open>classes_\<close>.
\<close>

definition inverse_transform :: "label_encoder \<Rightarrow> int \<Rightarrow> pyerror + string" where
  "inverse_transform le i =
     (if \<not> has_classes le then Inl (PyError ''This LabelEncoder instance is not fitted yet'')
      else if 0 \<le> i \<and> i < int (length (le_classes le)) then Inr (le_classes le ! nat i)
      else Inl (PyError ''y contains previously unseen labels''))"

subsection \<open>Global model variables and load\_models\<close>

record globals =
  model :: "classifier option"
  label_encoder :: "label_encoder option"
  scaler :: "scaler option"

definition initial_globals :: globals where
  "initial_globals = \<lparr>model = None, label_encoder = None, scaler = None\<rparr>"

text \<open>
  The directory \<^verbatim>\<open>models\<close>: what \<^verbatim>\<open>joblib.load\<close> gives for each of the three paths, an
  exception when the file is missing or corrupt.
\<close>

record model_dir =
  emotion_classifier_joblib :: "pyerror + classifier"
  label_encoder_joblib :: "pyerror + label_encoder"
  scaler_joblib :: "pyerror + scaler"

text \<open>
  Lines 49 to 66. The globals are assigned one after the other. Line 62, still inside the
  \<^verbatim>\<open>try\<close>, reads \<^verbatim>\<open>label_encoder.classes_\<close> for the log, which raises when the loaded
  object has no such attribute. An exception is printed and raised again, which aborts
  the startup. The result is the exception, if any, and the globals as they are left.
\<close>

definition load_models :: "model_dir \<Rightarrow> globals \<Rightarrow> pyerror option \<times> globals" where
  "load_models dir g =
     (case emotion_classifier_joblib dir of
        Inl e \<Rightarrow> (Some e, g)
      | Inr m \<Rightarrow>
          (case label_encoder_joblib dir of
             Inl e \<Rightarrow> (Some e, g\<lparr>model := Some m\<rparr>)
           | Inr le \<Rightarrow>
               (case scaler_joblib dir of
                  Inl e \<Rightarrow> (Some e, g\<lparr>model := Some m, label_encoder := Some le\<rparr>)
                | Inr sc \<Rightarrow>
                    (if has_classes le then None
                     else Some (PyError ''object has no attribute classes_''),
                     g\<lparr>model := Some m, label_encoder := Some le, scaler := Some sc\<rparr>))))"

subsection \<open>Request and response\<close>

record upload_file =
  filename :: string
  content :: bytes

record prediction_response =
  emotion :: string
  confidence :: real
  all_probabilities :: "string \<rightharpoonup> real"
  valid :: bool
  error :: "string option"

text \<open>
  What leaves \<open>predict_emotion\<close> as an exception: the HTTP error of line 105, or a Python
  exception that no handler catches.
\<close>

datatype raised = HTTPException nat string | Uncaught pyerror

text \<open>\<^verbatim>\<open>str.endswith\<close>.\<close>

definition endswith :: "string \<Rightarrow> string \<Rightarrow> bool" where
  "endswith s suffix =
     (length suffix \<le> length s \<and> drop (length s - length suffix) s = suffix)"

text \<open>
  \<^verbatim>\<open>probabilities[prediction]\<close>: numpy indexing, where a negative index counts from the
  end and an index out of bounds raises \<^verbatim>\<open>IndexError\<close>.
\<close>

definition np_index :: "real list \<Rightarrow> int \<Rightarrow> pyerror + real" where
  "np_index probabilities k =
     (if 0 \<le> k \<and> k < int (length probabilities) then Inr (probabilities ! nat k)
      else if k < 0 \<and> - int (length probabilities) \<le> k
        then Inr (probabilities ! nat (int (length probabilities) + k))
      else Inl (PyError ''index out of bounds''))"

text \<open>
  The dictionary comprehension of lines 154 to 157: the pairs of
  \<^verbatim>\<open>enumerate(probabilities)\<close> are entered in order, a later entry replaces an earlier one
  with the same key, and an exception of \<open>inverse_transform\<close> ends the loop.
\<close>

fun probability_dict ::
  "label_encoder \<Rightarrow> (nat \<times> real) list \<Rightarrow> (string \<rightharpoonup> real) \<Rightarrow> pyerror + (string \<rightharpoonup> real)"
where
  "probability_dict le [] d = Inr d"
| "probability_dict le ((i, prob) # rest) d =
     (case inverse_transform le (int i) of
        Inl e \<Rightarrow> Inl e
      | Inr label \<Rightarrow> probability_dict le rest (d(label \<mapsto> prob)))"

subsection \<open>predict\_emotion\<close>

definition invalid_format_response :: prediction_response where
  "invalid_format_response =
     \<lparr>emotion = [], confidence = 0, all_probabilities = Map.empty, valid = False,
      error = Some ''Invalid file format. Please upload a .wav file''\<rparr>"

definition invalid_audio_response :: prediction_response where
  "invalid_audio_response =
     \<lparr>emotion = [], confidence = 0, all_probabilities = Map.empty, valid = False,
      error = Some
        ''Invalid audio: File is too quiet, corrupted, or not a valid audio format''\<rparr>"

definition processing_error_response :: "pyerror \<Rightarrow> prediction_response" where
  "processing_error_response e =
     (case e of PyError msg \<Rightarrow>
        \<lparr>emotion = [], confidence = 0, all_probabilities = Map.empty, valid = False,
         error = Some (''Processing error: '' @ msg)\<rparr>)"

text \<open>Lines 131 to 164: what the \<^verbatim>\<open>try\<close> block does with the extracted features.\<close>

definition predict_body ::
  "classifier \<Rightarrow> label_encoder \<Rightarrow> scaler \<Rightarrow> real list option \<Rightarrow> prediction_response py"
where
  "predict_body m le sc features =
     (case features of
        None \<Rightarrow> ret invalid_audio_response
      | Some fv \<Rightarrow>
          bind (extern ScalerTransform (transform sc fv)) (\<lambda>features_scaled.
          bind (extern ModelPredict (predict m features_scaled)) (\<lambda>prediction.
          bind (extern ModelPredictProba (predict_proba m features_scaled)) (\<lambda>probabilities.
          bind (lift (inverse_transform le prediction)) (\<lambda>emotion'.
          bind (lift (np_index probabilities prediction)) (\<lambda>confidence'.
          bind (lift (probability_dict le (enumerate 0 probabilities) Map.empty)) (\<lambda>all_probs.
          ret \<lparr>emotion = emotion', confidence = confidence',
               all_probabilities = all_probs, valid = True, error = None\<rparr>)))))))"

text \<open>
  The \<^verbatim>\<open>try\<close> block, lines 118 to 164: the temporary file is written, the features are
  extracted, the file is removed (line 129) and the features are classified. An exception
  leaves the block together with what the handler will look at: whether
  \<^verbatim>\<open>tmp_file_path\<close> is bound and line 129 has not removed the file.
\<close>

definition try_block ::
  "libs \<Rightarrow> classifier \<Rightarrow> label_encoder \<Rightarrow> scaler \<Rightarrow> upload_file \<Rightarrow>
   call list \<times> ((bool \<times> pyerror) + prediction_response)"
where
  "try_block lib m le sc file =
     (case tmp_write lib (content file) of
        Inl e \<Rightarrow> ([TmpWrite], Inl (False, e))
      | Inr _ \<Rightarrow>
          (case extract_features lib (content file) of
             (t, Inl e) \<Rightarrow> (TmpWrite # t, Inl (True, e))
           | (t, Inr features) \<Rightarrow>
               (case os_unlink lib of
                  Inl e \<Rightarrow> (TmpWrite # t @ [OsUnlink], Inl (True, e))
                | Inr _ \<Rightarrow>
                    (case predict_body m le sc features of
                       (t', Inl e) \<Rightarrow> (TmpWrite # t @ OsUnlink # t', Inl (False, e))
                     | (t', Inr response) \<Rightarrow> (TmpWrite # t @ OsUnlink # t', Inr response)))))"

text \<open>
  The handler, lines 166 to 177: when \<^verbatim>\<open>tmp_file_path\<close> is bound and the file exists it is
  removed, outside any \<^verbatim>\<open>try\<close>, so an exception of this \<^verbatim>\<open>os.unlink\<close> leaves
  \<open>predict_emotion\<close>; otherwise the caught exception becomes a response.
\<close>

definition except_handler ::
  "libs \<Rightarrow> bool \<Rightarrow> pyerror \<Rightarrow> call list \<times> (raised + prediction_response)"
where
  "except_handler lib tmp_left e =
     (if tmp_left \<and> os_path_exists lib then
        (case os_unlink lib of
           Inl e' \<Rightarrow> ([OsUnlink], Inl (Uncaught e'))
         | Inr _ \<Rightarrow> ([OsUnlink], Inr (processing_error_response e)))
      else ([], Inr (processing_error_response e)))"

text \<open>
  Lines 93 to 177. Unloaded globals raise an HTTP error (line 105); a file name that does
  not end in \<^verbatim>\<open>.wav\<close> is answered before the \<^verbatim>\<open>try\<close> (lines 108 to 115); an exception
  of the \<^verbatim>\<open>try\<close> block goes to the handler.
\<close>

definition predict_emotion ::
  "libs \<Rightarrow> globals \<Rightarrow> upload_file \<Rightarrow> call list \<times> (raised + prediction_response)"
where
  "predict_emotion lib g file =
     (case (model g, label_encoder g, scaler g) of
        (Some m, Some le, Some sc) \<Rightarrow>
          if \<not> endswith (filename file) ''.wav'' then ([], Inr invalid_format_response)
          else
            (case try_block lib m le sc file of
               (t, Inl (tmp_left, e)) \<Rightarrow>
                 (case except_handler lib tmp_left e of (t', outcome) \<Rightarrow> (t @ t', outcome))
             | (t, Inr response) \<Rightarrow> (t, Inr response))
      | _ \<Rightarrow> ([], Inl (HTTPException 500 ''Models not loaded'')))"

section \<open>A small concrete installation\<close>

text \<open>
  Concrete stand-ins for the external components, on which the theorems below are
  instantiated: float32 arithmetic, a temporary file that can be written and removed, a
  decoder that yields a given waveform, a cepstral transform with two frames per
  coefficient, a classifier with two classes, an identity scaler, and label lists with
  two and with three labels.
\<close>

subsection \<open>Float32 arithmetic\<close>

text \<open>
  Rounding to the nearest integer, ties to the even one.
\<close>

definition round_half_even :: "real \<Rightarrow> int" where
  "round_half_even x =
     (if x - of_int \<lfloor>x\<rfloor> < 1 / 2 then \<lfloor>x\<rfloor>
      else if 1 / 2 < x - of_int \<lfloor>x\<rfloor> then \<lfloor>x\<rfloor> + 1
      else if even \<lfloor>x\<rfloor> then \<lfloor>x\<rfloor> else \<lfloor>x\<rfloor> + 1)"

text \<open>
  Rounding of a non-negative number below \<open>2 ^ 24\<close> to float32: the number is doubled
  until it has 24 binary digits before the point, at most 149 times (the smallest
  float32 quantum is \<open>2 ^ -149\<close>), rounded to an integer and halved back.
\<close>

fun round_scaled :: "nat \<Rightarrow> real \<Rightarrow> real" where
  "round_scaled 0 x = of_int (round_half_even x)"
| "round_scaled (Suc k) x =
     (if 2 ^ 23 \<le> x then of_int (round_half_even x) else round_scaled k (2 * x) / 2)"

definition fl32 :: "real \<Rightarrow> real" where
  "fl32 x = (if x < 0 then - round_scaled 149 (- x) else round_scaled 149 x)"

text \<open>
  The float32 square root of a positive float32 number below \<open>2 ^ 48\<close>: the number is multiplied by 4
  until it lies between \<open>2 ^ 46\<close> and \<open>2 ^ 48\<close>, the integer square root \<open>s\<close> of its
  integer part is found bit by bit, and \<open>s\<close> or \<open>s + 1\<close> is taken, whichever is nearer
  to the exact root.
\<close>

fun sqrt_bits :: "nat \<Rightarrow> int \<Rightarrow> int \<Rightarrow> int" where
  "sqrt_bits 0 n r = r"
| "sqrt_bits (Suc b) n r =
     (if (r + 2 ^ b) * (r + 2 ^ b) \<le> n then sqrt_bits b n (r + 2 ^ b)
      else sqrt_bits b n r)"

fun sqrt_scaled :: "nat \<Rightarrow> real \<Rightarrow> real" where
  "sqrt_scaled 0 y = 0"
| "sqrt_scaled (Suc k) y =
     (if 2 ^ 46 \<le> y then
        (if y < of_int (sqrt_bits 24 \<lfloor>y\<rfloor> 0 * sqrt_bits 24 \<lfloor>y\<rfloor> 0 + sqrt_bits 24 \<lfloor>y\<rfloor> 0)
                + 1 / 4
         then of_int (sqrt_bits 24 \<lfloor>y\<rfloor> 0)
         else of_int (sqrt_bits 24 \<lfloor>y\<rfloor> 0 + 1))
      else sqrt_scaled k (4 * y) / 2)"

definition fl32_sqrt :: "real \<Rightarrow> real" where
  "fl32_sqrt y = (if y \<le> 0 then 0 else sqrt_scaled 98 y)"

text \<open>
  numpy on a float32 array: the squares are rounded, fewer than eight elements are added
  in order with every partial sum rounded, the quotient is rounded, and the mean of an
  empty array is \<^verbatim>\<open>nan\<close>.
\<close>

definition float32_square :: "waveform \<Rightarrow> waveform" where
  "float32_square audio = map (\<lambda>x. fl32 (x * x)) audio"

definition float32_mean :: "waveform \<Rightarrow> real option" where
  "float32_mean xs =
     (if xs = [] then None
      else Some (fl32 (foldl (\<lambda>acc x. fl32 (acc + x)) 0 xs / real (length xs))))"

definition float32_sqrt :: "real option \<Rightarrow> real option" where
  "float32_sqrt x = map_option fl32_sqrt x"

subsection \<open>Components\<close>

definition example_libs :: "waveform \<Rightarrow> libs" where
  "example_libs audio =
     \<lparr>tmp_write = (\<lambda>content. Inr ()),
      os_path_exists = True,
      os_unlink = Inr (),
      load = (\<lambda>file sr. Inr audio),
      square32 = float32_square,
      mean32 = float32_mean,
      sqrt32 = float32_sqrt,
      mfcc = (\<lambda>y sr n_mfcc. Inr (replicate n_mfcc [1, 3])),
      delta = (\<lambda>data order. Inr data)\<rparr>"

definition example_classifier :: classifier where
  "example_classifier =
     \<lparr>clf_classes = [0, 1],
      predict = (\<lambda>x. Inr 1),
      predict_proba = (\<lambda>x. Inr [1 / 4, 3 / 4])\<rparr>"

definition example_scaler :: scaler where
  "example_scaler = \<lparr>transform = (\<lambda>x. Inr x)\<rparr>"

definition two_labels :: label_encoder where
  "two_labels = \<lparr>has_classes = True, le_classes = [''angry'', ''happy'']\<rparr>"

definition three_labels :: label_encoder where
  "three_labels =
     \<lparr>has_classes = True, le_classes = [''angry'', ''happy'', ''sad'']\<rparr>"

definition example_dir :: "label_encoder \<Rightarrow> model_dir" where
  "example_dir le =
     \<lparr>emotion_classifier_joblib = Inr example_classifier,
      label_encoder_joblib = Inr le,
      scaler_joblib = Inr example_scaler\<rparr>"

definition example_globals :: "label_encoder \<Rightarrow> globals" where
  "example_globals le =
     \<lparr>model = Some example_classifier, label_encoder = Some le,
      scaler = Some example_scaler\<rparr>"

text \<open>
  Two float32 samples whose exact root-mean-square is just below 0.001, and a clip whose
  temporary file cannot be removed while the cepstral transform raises.
\<close>

definition boundary_clip :: waveform where
  "boundary_clip = [365841 / 2 ^ 28, - 12975153 / 2 ^ 35]"


definition example_upload :: upload_file where
  "example_upload = \<lparr>filename = ''clip.wav'', content = ''RIFF''\<rparr>"

section \<open>The target length\<close>

lemma target_length_eq: "target_length = 56000"
  by (simp add: target_length_def SAMPLE_RATE_def DURATION_def)

lemma length_pad_or_trim: "length (pad_or_trim audio) = target_length"
  by (simp add: pad_or_trim_def)

section \<open>Amplitude normalisation\<close>

lemma peak_nonneg:
  fixes audio :: "real list"
  assumes "audio \<noteq> []"
  shows "0 \<le> Max (set (map abs audio))"
proof -
  from assms obtain x where "x \<in> set audio" by (cases audio) auto
  then have "\<bar>x\<bar> \<le> Max (set (map abs audio))" by (intro Max_ge) auto
  moreover have "0 \<le> \<bar>x\<bar>" by simp
  ultimately show ?thesis by linarith
qed

lemma peak_of_normalized:
  fixes audio :: "real list"
  assumes ne: "audio \<noteq> []" and pos: "0 < Max (set (map abs audio))"
  shows "Max (set (map abs (map (\<lambda>x. x / Max (set (map abs audio))) audio))) = 1"
proof -
  let ?p = "Max (set (map abs audio))"
  have fin: "finite (set (map abs audio))" and nonempty: "set (map abs audio) \<noteq> {}"
    using ne by auto
  have "?p \<in> set (map abs audio)" using Max_in [OF fin nonempty] .
  then obtain x where x: "x \<in> set audio" "\<bar>x\<bar> = ?p" by auto
  let ?S = "set (map abs (map (\<lambda>x. x / ?p) audio))"
  have "\<bar>x / ?p\<bar> \<in> ?S" using x(1) by auto
  moreover have "\<bar>x / ?p\<bar> = 1" using x(2) pos by simp
  ultimately have one_in: "1 \<in> ?S" by (simp only:)
  have "\<And>y. y \<in> ?S \<Longrightarrow> y \<le> 1"
  proof -
    fix y assume "y \<in> ?S"
    then obtain z where z: "z \<in> set audio" "y = \<bar>z / ?p\<bar>" by auto
    have "\<bar>z\<bar> \<le> ?p" using z(1) by (intro Max_ge) auto
    then show "y \<le> 1" using z(2) pos by (simp add: divide_le_eq)
  qed
  then show ?thesis using one_in by (intro Max_eqI) auto
qed

text \<open>
  C8. The Amplitude Normalizer is idempotent: for a non-empty waveform (a fixed-length
  waveform has 56000 samples) whose peak is not zero, one application divides every sample
  by the largest absolute sample, and a second application returns the same waveform.
\<close>

theorem amplitude_normalizer_idempotent:
  fixes audio :: waveform
  assumes "audio \<noteq> []" and "Max (set (map abs audio)) \<noteq> 0"
  shows "\<exists>once. normalize_amplitude audio = Inr once \<and>
           once = map (\<lambda>x. x / Max (set (map abs audio))) audio \<and>
           normalize_amplitude once = Inr once"
proof -
  let ?peak = "Max (set (map abs audio))"
  have pos: "0 < ?peak" using peak_nonneg [OF assms(1)] assms(2) by linarith
  let ?once = "map (\<lambda>x. x / ?peak) audio"
  have first: "normalize_amplitude audio = Inr ?once"
    using assms(1) pos by (simp add: normalize_amplitude_def np_max_def)
  have "?once \<noteq> []" using assms(1) by simp
  then have second: "normalize_amplitude ?once = Inr ?once"
    using peak_of_normalized [OF assms(1) pos]
    by (simp add: normalize_amplitude_def np_max_def)
  from first second show ?thesis by blast
qed

theorem amplitude_normalizer_idempotent_witness:
  "normalize_amplitude [1/2, -1/4] = Inr [1, -1/2] \<and>
   normalize_amplitude [1, -1/2] = Inr [1, -1/2]"
  using amplitude_normalizer_idempotent [of "[1/2, -1/4]"] by simp

section \<open>The pipeline, step by step\<close>

lemma bind_Inl [simp]: "bind (t, Inl e) f = (t, Inl e)"
  by (simp add: bind_def)

lemma bind_Inr [simp]: "bind (t, Inr x) f = (t @ fst (f x), snd (f x))"
  by (simp add: bind_def split: prod.splits)

lemma pad_or_trim_nonempty: "pad_or_trim audio \<noteq> []"
proof
  assume "pad_or_trim audio = []"
  then have "length (pad_or_trim audio) = 0" by simp
  then show False by (simp add: length_pad_or_trim target_length_eq)
qed

lemma normalize_amplitude_length:
  "normalize_amplitude audio = Inr a \<Longrightarrow> length a = length audio"
  by (auto simp: normalize_amplitude_def split: sum.splits if_splits)

lemma normalize_amplitude_pad_or_trim:
  "\<exists>a. normalize_amplitude (pad_or_trim audio) = Inr a \<and> length a = target_length"
proof -
  have "np_max (map abs (pad_or_trim audio)) = Inr (Max (set (map abs (pad_or_trim audio))))"
    using pad_or_trim_nonempty by (simp add: np_max_def)
  then obtain a where a: "normalize_amplitude (pad_or_trim audio) = Inr a"
    by (simp add: normalize_amplitude_def)
  then have "length a = target_length"
    using normalize_amplitude_length [OF a] by (simp add: length_pad_or_trim)
  with a show ?thesis by blast
qed

lemma preprocess_audio_load_error:
  "load lib file SAMPLE_RATE = Inl e \<Longrightarrow> preprocess_audio lib file = ([LibrosaLoad], None)"
  by (simp add: preprocess_audio_def preprocess_body_def extern_def)

lemma preprocess_audio_too_quiet:
  "load lib file SAMPLE_RATE = Inr audio \<Longrightarrow> too_quiet lib audio \<Longrightarrow>
   preprocess_audio lib file = ([LibrosaLoad], None)"
  by (simp add: preprocess_audio_def preprocess_body_def extern_def ret_def)

lemma preprocess_audio_accepted:
  assumes "load lib file SAMPLE_RATE = Inr audio" and "\<not> too_quiet lib audio"
  shows "\<exists>a. normalize_amplitude (pad_or_trim audio) = Inr a \<and> length a = target_length \<and>
     preprocess_audio lib file = ([LibrosaLoad], Some a)"
proof -
  from normalize_amplitude_pad_or_trim obtain a
    where a: "normalize_amplitude (pad_or_trim audio) = Inr a" "length a = target_length"
    by blast
  then have "preprocess_audio lib file = ([LibrosaLoad], Some a)"
    using assms by (simp add: preprocess_audio_def preprocess_body_def extern_def ret_def lift_def)
  with a show ?thesis by blast
qed

lemma preprocess_audio_trace: "fst (preprocess_audio lib file) = [LibrosaLoad]"
proof (cases "load lib file SAMPLE_RATE")
  case (Inl e)
  then show ?thesis by (simp add: preprocess_audio_load_error)
next
  case (Inr audio)
  show ?thesis
  proof (cases "too_quiet lib audio")
    case True
    with Inr show ?thesis by (simp add: preprocess_audio_too_quiet)
  next
    case False
    from preprocess_audio_accepted [OF Inr False] show ?thesis by auto
  qed
qed

lemma extract_features_None:
  "preprocess_audio lib file = (t, None) \<Longrightarrow> extract_features lib file = (t, Inr None)"
  by (simp add: extract_features_def)

lemma extract_features_SomeD:
  assumes "extract_features lib file = (t, Inr (Some fv))"
  shows "\<exists>audio mfccs mfcc_delta mfcc_delta2.
     preprocess_audio lib file = ([LibrosaLoad], Some audio) \<and>
     mfcc lib audio SAMPLE_RATE N_MFCC = Inr mfccs \<and>
     delta lib mfccs 1 = Inr mfcc_delta \<and>
     delta lib mfccs 2 = Inr mfcc_delta2 \<and>
     fv = aggregate mfccs mfcc_delta mfcc_delta2 \<and>
     t = [LibrosaLoad, Mfcc, Delta 1, Delta 2]"
proof (cases "preprocess_audio lib file")
  case (Pair t0 res)
  have t0: "t0 = [LibrosaLoad]" using preprocess_audio_trace [of lib "file"] Pair by simp
  show ?thesis
  proof (cases res)
    case None
    with Pair assms show ?thesis by (simp add: extract_features_def)
  next
    case (Some audio)
    with Pair assms t0 show ?thesis
      by (auto simp: extract_features_def bind_def extern_def ret_def
          split: sum.splits prod.splits)
  qed
qed

lemma predict_body_None: "predict_body m le sc None = ([], Inr invalid_audio_response)"
  by (simp add: predict_body_def ret_def)

lemma predict_body_InrD:
  assumes "predict_body m le sc features = (t, Inr r)"
  shows "(features = None \<and> r = invalid_audio_response) \<or>
     (\<exists>fv features_scaled prediction probabilities emotion' confidence' all_probs.
        features = Some fv \<and>
        transform sc fv = Inr features_scaled \<and>
        predict m features_scaled = Inr prediction \<and>
        predict_proba m features_scaled = Inr probabilities \<and>
        inverse_transform le prediction = Inr emotion' \<and>
        np_index probabilities prediction = Inr confidence' \<and>
        probability_dict le (enumerate 0 probabilities) Map.empty = Inr all_probs \<and>
        r = \<lparr>emotion = emotion', confidence = confidence',
             all_probabilities = all_probs, valid = True, error = None\<rparr>)"
  using assms
  by (auto simp: predict_body_def bind_def extern_def lift_def ret_def
      split: prod.splits sum.splits option.splits)


lemma processing_error_response_fields:
  "\<not> valid (processing_error_response e)"
  "error (processing_error_response (PyError msg)) = Some (''Processing error: '' @ msg)"
  "\<exists>msg. error (processing_error_response e) = Some msg \<and> msg \<noteq> []"
  by (cases e; simp add: processing_error_response_def)+


lemma except_handler_removable:
  "os_unlink lib = Inr () \<Longrightarrow>
   snd (except_handler lib tmp_left e) = Inr (processing_error_response e)"
  by (simp add: except_handler_def)


lemma predict_emotion_InrD:
  assumes "predict_emotion lib g file = (t, Inr r)"
  shows "\<exists>m le sc. model g = Some m \<and> label_encoder g = Some le \<and> scaler g = Some sc \<and>
     (r = invalid_format_response \<or> (\<exists>e. r = processing_error_response e) \<or>
      (\<exists>t0 features t'. endswith (filename file) ''.wav'' \<and>
         extract_features lib (content file) = (t0, Inr features) \<and>
         predict_body m le sc features = (t', Inr r)))"
  using assms
  by (auto simp: predict_emotion_def try_block_def except_handler_def
      split: option.splits if_splits prod.splits sum.splits)

section \<open>The probability dictionary\<close>

lemma inverse_transform_InrD:
  "inverse_transform le i = Inr label \<Longrightarrow>
   0 \<le> i \<and> nat i < length (le_classes le) \<and> label = le_classes le ! nat i"
  by (auto simp: inverse_transform_def split: if_splits)

lemma inverse_transform_nat:
  "inverse_transform le (int i) = Inr label \<longleftrightarrow>
   has_classes le \<and> i < length (le_classes le) \<and> label = le_classes le ! i"
  by (auto simp: inverse_transform_def)

lemma probability_dict_bound:
  "probability_dict le (enumerate n ps) d = Inr d' \<Longrightarrow> ps \<noteq> [] \<Longrightarrow>
   n + length ps \<le> length (le_classes le)"
proof (induction ps arbitrary: n d)
  case Nil
  then show ?case by simp
next
  case (Cons p ps)
  from Cons.prems(1) obtain label where
    label: "inverse_transform le (int n) = Inr label" and
    rest: "probability_dict le (enumerate (Suc n) ps) (d(label \<mapsto> p)) = Inr d'"
    by (auto split: sum.splits)
  from label have n: "n < length (le_classes le)" by (simp add: inverse_transform_nat)
  show ?case
  proof (cases "ps = []")
    case True
    with n show ?thesis by simp
  next
    case False
    from Cons.IH [OF rest False] show ?thesis by simp
  qed
qed

lemma probability_dict_untouched:
  "probability_dict le (enumerate n ps) d = Inr d' \<Longrightarrow>
   k \<notin> set (take (length ps) (drop n (le_classes le))) \<Longrightarrow> d' k = d k"
proof (induction ps arbitrary: n d)
  case Nil
  then show ?case by simp
next
  case (Cons p ps)
  from Cons.prems(1) obtain label where
    label: "inverse_transform le (int n) = Inr label" and
    rest: "probability_dict le (enumerate (Suc n) ps) (d(label \<mapsto> p)) = Inr d'"
    by (auto split: sum.splits)
  from label have n: "n < length (le_classes le)" and l: "label = le_classes le ! n"
    by (simp_all add: inverse_transform_nat)
  have unfold_drop: "drop n (le_classes le) = le_classes le ! n # drop (Suc n) (le_classes le)"
    using n by (simp add: Cons_nth_drop_Suc)
  from Cons.prems(2) have "k \<noteq> label" and
    "k \<notin> set (take (length ps) (drop (Suc n) (le_classes le)))"
    by (simp_all add: unfold_drop l)
  with Cons.IH [OF rest] show ?case by simp
qed

lemma probability_dict_dom:
  "probability_dict le (enumerate n ps) d = Inr d' \<Longrightarrow>
   dom d' = dom d \<union> set (take (length ps) (drop n (le_classes le)))"
proof (induction ps arbitrary: n d)
  case Nil
  then show ?case by simp
next
  case (Cons p ps)
  from Cons.prems(1) obtain label where
    label: "inverse_transform le (int n) = Inr label" and
    rest: "probability_dict le (enumerate (Suc n) ps) (d(label \<mapsto> p)) = Inr d'"
    by (auto split: sum.splits)
  from label have n: "n < length (le_classes le)" and l: "label = le_classes le ! n"
    by (simp_all add: inverse_transform_nat)
  have unfold_drop: "drop n (le_classes le) = le_classes le ! n # drop (Suc n) (le_classes le)"
    using n by (simp add: Cons_nth_drop_Suc)
  from Cons.IH [OF rest]
  have "dom d' = dom (d(label \<mapsto> p)) \<union> set (take (length ps) (drop (Suc n) (le_classes le)))" .
  then show ?case by (auto simp: unfold_drop l)
qed

lemma probability_dict_value:
  "probability_dict le (enumerate n ps) d = Inr d' \<Longrightarrow> distinct (le_classes le) \<Longrightarrow>
   j < length ps \<Longrightarrow> d' (le_classes le ! (n + j)) = Some (ps ! j)"
proof (induction ps arbitrary: n d j)
  case Nil
  then show ?case by simp
next
  case (Cons p ps)
  from Cons.prems(1) obtain label where
    label: "inverse_transform le (int n) = Inr label" and
    rest: "probability_dict le (enumerate (Suc n) ps) (d(label \<mapsto> p)) = Inr d'"
    by (auto split: sum.splits)
  from label have n: "n < length (le_classes le)" and l: "label = le_classes le ! n"
    by (simp_all add: inverse_transform_nat)
  show ?case
  proof (cases j)
    case 0
    have "distinct (drop n (le_classes le))" using Cons.prems(2) by simp
    then have "distinct (le_classes le ! n # drop (Suc n) (le_classes le))"
      using n by (simp add: Cons_nth_drop_Suc)
    then have "label \<notin> set (drop (Suc n) (le_classes le))" by (simp add: l)
    then have "label \<notin> set (take (length ps) (drop (Suc n) (le_classes le)))"
      by (meson in_set_takeD)
    from probability_dict_untouched [OF rest this] 0 l show ?thesis by simp
  next
    case (Suc j')
    with Cons.prems(3) have "j' < length ps" by simp
    from Cons.IH [OF rest Cons.prems(2) this] Suc show ?thesis by simp
  qed
qed

lemma probability_dict_sum:
  assumes dict: "probability_dict le (enumerate 0 ps) Map.empty = Inr d"
    and dist: "distinct (le_classes le)"
  shows "(\<Sum>k \<in> dom d. the (d k)) = sum_list ps"
proof (cases "ps = []")
  case True
  with dict have "d = Map.empty" by simp
  with True show ?thesis by simp
next
  case False
  let ?cs = "le_classes le"
  from probability_dict_bound [OF dict False] have len: "length ps \<le> length ?cs" by simp
  have dom: "dom d = (\<lambda>i. ?cs ! i) ` {0..<length ps}"
    using probability_dict_dom [OF dict] len by (simp add: nth_image)
  have inj: "inj_on (\<lambda>i. ?cs ! i) {0..<length ps}"
    using dist len by (auto simp: inj_on_def nth_eq_iff_index_eq)
  have "(\<Sum>k \<in> dom d. the (d k)) = (\<Sum>i = 0..<length ps. the (d (?cs ! i)))"
    unfolding dom by (simp add: sum.reindex [OF inj])
  also have "\<dots> = (\<Sum>i = 0..<length ps. ps ! i)"
    using probability_dict_value [OF dict dist] by simp
  also have "\<dots> = sum_list ps" by (simp add: sum_list_sum_nth)
  finally show ?thesis .
qed

section \<open>Running the concrete installation\<close>

lemma round_scaled_numeral [simp]:
  "round_scaled (numeral k) x =
     (if 2 ^ 23 \<le> x then of_int (round_half_even x)
      else round_scaled (pred_numeral k) (2 * x) / 2)"
  by (simp add: numeral_eq_Suc)

lemma sqrt_bits_numeral [simp]:
  "sqrt_bits (numeral b) n r =
     (if (r + 2 ^ pred_numeral b) * (r + 2 ^ pred_numeral b) \<le> n
      then sqrt_bits (pred_numeral b) n (r + 2 ^ pred_numeral b)
      else sqrt_bits (pred_numeral b) n r)"
  by (simp add: numeral_eq_Suc)

lemma sqrt_scaled_numeral [simp]:
  "sqrt_scaled (numeral k) y =
     (if 2 ^ 46 \<le> y then
        (if y < of_int (sqrt_bits 24 \<lfloor>y\<rfloor> 0 * sqrt_bits 24 \<lfloor>y\<rfloor> 0 + sqrt_bits 24 \<lfloor>y\<rfloor> 0)
                + 1 / 4
         then of_int (sqrt_bits 24 \<lfloor>y\<rfloor> 0)
         else of_int (sqrt_bits 24 \<lfloor>y\<rfloor> 0 + 1))
      else sqrt_scaled (pred_numeral k) (4 * y) / 2)"
  by (simp add: numeral_eq_Suc)

lemma example_audio_energy:
  "audio_energy (example_libs a) audio = float32_sqrt (float32_mean (float32_square audio))"
  by (simp add: audio_energy_def example_libs_def)

lemma fl32_threshold: "fl32 (1 / 1000) = 8589935 / 2 ^ 33"
  by (simp add: fl32_def round_half_even_def)

lemma silent_energy: "audio_energy (example_libs a) [0, 0, 0] = Some 0"
  by (simp add: example_audio_energy float32_sqrt_def float32_mean_def float32_square_def
      fl32_def fl32_sqrt_def round_half_even_def)

lemma loud_energy: "audio_energy (example_libs a) [1, -1] = Some 1"
  by (simp add: example_audio_energy float32_sqrt_def float32_mean_def float32_square_def
      fl32_def fl32_sqrt_def round_half_even_def)

lemma boundary_energy:
  "audio_energy (example_libs a) boundary_clip = Some (8589935 / 2 ^ 33)"
  by (simp add: example_audio_energy float32_sqrt_def float32_mean_def float32_square_def
      fl32_def fl32_sqrt_def round_half_even_def boundary_clip_def)

lemma boundary_exact_rms: "sqrt (np_mean (map (\<lambda>x. x ^ 2) boundary_clip)) < 1 / 1000"
  by (rule real_less_lsqrt) (simp_all add: np_mean_def boundary_clip_def power2_eq_square)

lemma example_not_too_quiet: "\<not> too_quiet (example_libs a) [1, -1]"
  by (simp add: too_quiet_def loud_energy MIN_AUDIO_ENERGY_def)

lemma boundary_not_too_quiet: "\<not> too_quiet (example_libs a) boundary_clip"
  by (simp add: too_quiet_def boundary_energy MIN_AUDIO_ENERGY_def)

lemma example_aggregate:
  "aggregate (replicate 40 [1, 3]) (replicate 40 [1, 3]) (replicate 40 [1, 3]) =
     replicate 40 2 @ replicate 40 1 @ replicate 40 2 @ replicate 40 1 @
     replicate 40 2 @ replicate 40 1"
  by (simp add: aggregate_def np_mean_def np_std_def)

lemma example_extract_features:
  assumes "\<not> too_quiet (example_libs audio) audio"
  shows "extract_features (example_libs audio) file =
     ([LibrosaLoad, Mfcc, Delta 1, Delta 2],
      Inr (Some (replicate 40 2 @ replicate 40 1 @ replicate 40 2 @ replicate 40 1 @
                 replicate 40 2 @ replicate 40 1)))"
proof -
  have "load (example_libs audio) file SAMPLE_RATE = Inr audio"
    by (simp add: example_libs_def)
  from preprocess_audio_accepted [OF this assms] obtain a where
    "preprocess_audio (example_libs audio) file = ([LibrosaLoad], Some a)"
    by blast
  then show ?thesis
    by (simp add: extract_features_def extern_def ret_def example_libs_def N_MFCC_def
        example_aggregate)
qed

lemma example_predict_emotion:
  assumes "\<not> too_quiet (example_libs audio) audio"
    and "has_classes le" and "le_classes le = a # b # rest"
  shows "predict_emotion (example_libs audio) (example_globals le) example_upload =
     ([TmpWrite, LibrosaLoad, Mfcc, Delta 1, Delta 2, OsUnlink, ScalerTransform, ModelPredict,
       ModelPredictProba],
      Inr \<lparr>emotion = b, confidence = 3 / 4,
           all_probabilities = [a \<mapsto> 1 / 4, b \<mapsto> 3 / 4], valid = True, error = None\<rparr>)"
proof -
  have wav: "endswith (filename example_upload) ''.wav''"
    by (simp add: example_upload_def endswith_def)
  have stored: "tmp_write (example_libs audio) (content example_upload) = Inr ()"
    and removed: "os_unlink (example_libs audio) = Inr ()"
    by (simp_all add: example_libs_def)
  have dict: "probability_dict le (enumerate 0 [1 / 4, 3 / 4]) Map.empty =
      Inr [a \<mapsto> 1 / 4, b \<mapsto> 3 / 4]"
    using assms(2,3) by (simp add: inverse_transform_def)
  have body: "predict_body example_classifier le example_scaler
      (Some (replicate 40 2 @ replicate 40 1 @ replicate 40 2 @ replicate 40 1 @
             replicate 40 2 @ replicate 40 1)) =
     ([ScalerTransform, ModelPredict, ModelPredictProba],
      Inr \<lparr>emotion = b, confidence = 3 / 4,
           all_probabilities = [a \<mapsto> 1 / 4, b \<mapsto> 3 / 4], valid = True, error = None\<rparr>)"
    using assms(2,3)
    by (simp add: predict_body_def extern_def lift_def ret_def
        example_classifier_def example_scaler_def inverse_transform_def np_index_def dict)
  have "try_block (example_libs audio) example_classifier le example_scaler example_upload =
     ([TmpWrite, LibrosaLoad, Mfcc, Delta 1, Delta 2, OsUnlink, ScalerTransform, ModelPredict,
       ModelPredictProba],
      Inr \<lparr>emotion = b, confidence = 3 / 4,
           all_probabilities = [a \<mapsto> 1 / 4, b \<mapsto> 3 / 4], valid = True, error = None\<rparr>)"
    by (simp add: try_block_def stored removed example_extract_features [OF assms(1)] body)
  then show ?thesis
    using wav by (simp add: predict_emotion_def example_globals_def)
qed

lemma example_load_models:
  "has_classes le \<Longrightarrow>
   load_models (example_dir le) initial_globals = (None, example_globals le)"
  by (simp add: load_models_def example_dir_def initial_globals_def example_globals_def)

section \<open>The Length Normalizer\<close>



section \<open>The quality gate\<close>

text \<open>
  C1, as amended. When the energy that line 31 computes for the decoded waveform, in
  float32 arithmetic, is below 0.001, and the temporary file is removed without an
  exception, \<open>predict\<close> answers with \<open>valid = False\<close> and the message about a file that is
  too quiet, and the only external calls of the request are the writing of the temporary
  file, the decoding and the removal of the file: no cepstral transform, no scaler and no
  classifier call is made.
\<close>

theorem quiet_audio_rejected:
  assumes loaded: "model g = Some m" "label_encoder g = Some le" "scaler g = Some sc"
    and wav: "endswith (filename file) ''.wav''"
    and stored: "tmp_write lib (content file) = Inr ()"
    and removed: "os_unlink lib = Inr ()"
    and decoded: "load lib (content file) SAMPLE_RATE = Inr audio"
    and energy: "audio_energy lib audio = Some e"
    and quiet: "e < 0.001"
  shows "predict_emotion lib g file =
           ([TmpWrite, LibrosaLoad, OsUnlink], Inr invalid_audio_response) \<and>
         \<not> valid invalid_audio_response \<and>
         error invalid_audio_response = Some
           ''Invalid audio: File is too quiet, corrupted, or not a valid audio format''"
proof -
  have "too_quiet lib audio"
    using energy quiet by (simp add: too_quiet_def MIN_AUDIO_ENERGY_def)
  then have "preprocess_audio lib (content file) = ([LibrosaLoad], None)"
    using decoded by (rule preprocess_audio_too_quiet [rotated])
  then have "extract_features lib (content file) = ([LibrosaLoad], Inr None)"
    by (rule extract_features_None)
  then have "try_block lib m le sc file =
      ([TmpWrite, LibrosaLoad, OsUnlink], Inr invalid_audio_response)"
    using stored removed by (simp add: try_block_def predict_body_None)
  then have "predict_emotion lib g file =
      ([TmpWrite, LibrosaLoad, OsUnlink], Inr invalid_audio_response)"
    using loaded wav by (simp add: predict_emotion_def)
  then show ?thesis by (simp add: invalid_audio_response_def)
qed

theorem quiet_audio_rejected_witness:
  "predict_emotion (example_libs [0, 0, 0]) (example_globals two_labels) example_upload =
     ([TmpWrite, LibrosaLoad, OsUnlink], Inr invalid_audio_response)"
  using quiet_audio_rejected [of "example_globals two_labels" example_classifier two_labels
      example_scaler example_upload "example_libs [0, 0, 0]" "[0, 0, 0]" 0]
    silent_energy [of "[0, 0, 0]"]
  by (simp add: example_globals_def example_upload_def example_libs_def endswith_def)

text \<open>
  The exact root-mean-square of the boundary clip is below 0.001, the float32 energy of
  line 31 is the float32 number next above 0.001, and the clip is classified.
\<close>

theorem quiet_audio_boundary_counterexample:
  "sqrt (np_mean (map (\<lambda>x. x ^ 2) boundary_clip)) < 0.001 \<and>
   audio_energy (example_libs boundary_clip) boundary_clip = Some (8589935 / 2 ^ 33) \<and>
   \<not> (8589935 / 2 ^ 33 < MIN_AUDIO_ENERGY) \<and>
   predict_emotion (example_libs boundary_clip) (example_globals two_labels) example_upload =
     ([TmpWrite, LibrosaLoad, Mfcc, Delta 1, Delta 2, OsUnlink, ScalerTransform, ModelPredict,
       ModelPredictProba],
      Inr \<lparr>emotion = ''happy'', confidence = 3 / 4,
           all_probabilities = [''angry'' \<mapsto> 1 / 4, ''happy'' \<mapsto> 3 / 4],
           valid = True, error = None\<rparr>)"
proof -
  have "predict_emotion (example_libs boundary_clip) (example_globals two_labels)
      example_upload =
     ([TmpWrite, LibrosaLoad, Mfcc, Delta 1, Delta 2, OsUnlink, ScalerTransform, ModelPredict,
       ModelPredictProba],
      Inr \<lparr>emotion = ''happy'', confidence = 3 / 4,
           all_probabilities = [''angry'' \<mapsto> 1 / 4, ''happy'' \<mapsto> 3 / 4],
           valid = True, error = None\<rparr>)"
    by (rule example_predict_emotion [OF boundary_not_too_quiet])
      (simp_all add: two_labels_def)
  moreover have "\<not> (8589935 / 2 ^ 33 < MIN_AUDIO_ENERGY)"
    by (simp add: MIN_AUDIO_ENERGY_def)
  moreover have "sqrt (np_mean (map (\<lambda>x. x ^ 2) boundary_clip)) < 0.001"
    using boundary_exact_rms by simp
  ultimately show ?thesis using boundary_energy [of boundary_clip] by blast
qed

section \<open>The feature vector\<close>

text \<open>
  C4. Given that the cepstral transform returns \<open>N_MFCC\<close> rows and that the delta
  transform keeps the shape of its argument (the documented shapes of the two librosa
  functions), every feature vector that \<open>extract_features\<close> produces has length 240
  and is the concatenation, in this order, of the row means and row standard deviations
  of the base, delta and delta-delta matrices; position \<open>i\<close> of each block belongs to
  coefficient \<open>i\<close>. (For a matrix without frames numpy gives \<^verbatim>\<open>nan\<close> where \<open>np_mean\<close>
  gives \<open>0\<close>; the layout is the same.)
\<close>

theorem feature_vector_layout:
  assumes mfcc_shape:
      "\<forall>y mfccs. mfcc lib y SAMPLE_RATE N_MFCC = Inr mfccs \<longrightarrow> length mfccs = N_MFCC"
    and delta_shape:
      "\<forall>data order d. delta lib data order = Inr d \<longrightarrow> length d = length data"
    and produced: "extract_features lib file = (t, Inr (Some fv))"
  shows "length fv = 240 \<and>
     (\<exists>audio mfccs mfcc_delta mfcc_delta2.
        preprocess_audio lib file = ([LibrosaLoad], Some audio) \<and>
        mfcc lib audio SAMPLE_RATE N_MFCC = Inr mfccs \<and>
        delta lib mfccs 1 = Inr mfcc_delta \<and>
        delta lib mfccs 2 = Inr mfcc_delta2 \<and>
        length mfccs = 40 \<and> length mfcc_delta = 40 \<and> length mfcc_delta2 = 40 \<and>
        fv = map np_mean mfccs @ map np_std mfccs @
             map np_mean mfcc_delta @ map np_std mfcc_delta @
             map np_mean mfcc_delta2 @ map np_std mfcc_delta2 \<and>
        (\<forall>i<40.
           fv ! i = np_mean (mfccs ! i) \<and>
           fv ! (40 + i) = np_std (mfccs ! i) \<and>
           fv ! (80 + i) = np_mean (mfcc_delta ! i) \<and>
           fv ! (120 + i) = np_std (mfcc_delta ! i) \<and>
           fv ! (160 + i) = np_mean (mfcc_delta2 ! i) \<and>
           fv ! (200 + i) = np_std (mfcc_delta2 ! i)))"
proof -
  from extract_features_SomeD [OF produced] obtain audio mfccs mfcc_delta mfcc_delta2 where
    pre: "preprocess_audio lib file = ([LibrosaLoad], Some audio)" and
    m: "mfcc lib audio SAMPLE_RATE N_MFCC = Inr mfccs" and
    d1: "delta lib mfccs 1 = Inr mfcc_delta" and
    d2: "delta lib mfccs 2 = Inr mfcc_delta2" and
    fv: "fv = aggregate mfccs mfcc_delta mfcc_delta2"
    by blast
  from mfcc_shape m have lm: "length mfccs = 40" by (simp add: N_MFCC_def)
  from delta_shape d1 lm have l1: "length mfcc_delta = 40" by auto
  from delta_shape d2 lm have l2: "length mfcc_delta2 = 40" by auto
  have len: "length fv = 240" by (simp add: fv aggregate_def lm l1 l2)
  have pos: "\<forall>i<40.
           fv ! i = np_mean (mfccs ! i) \<and>
           fv ! (40 + i) = np_std (mfccs ! i) \<and>
           fv ! (80 + i) = np_mean (mfcc_delta ! i) \<and>
           fv ! (120 + i) = np_std (mfcc_delta ! i) \<and>
           fv ! (160 + i) = np_mean (mfcc_delta2 ! i) \<and>
           fv ! (200 + i) = np_std (mfcc_delta2 ! i)"
    by (simp add: fv aggregate_def nth_append lm l1 l2)
  from pre m d1 d2 lm l1 l2 len pos fv show ?thesis
    unfolding aggregate_def by blast
qed

theorem feature_vector_layout_witness:
  "extract_features (example_libs [1, -1]) ''RIFF'' =
     ([LibrosaLoad, Mfcc, Delta 1, Delta 2],
      Inr (Some (replicate 40 2 @ replicate 40 1 @ replicate 40 2 @ replicate 40 1 @
                 replicate 40 2 @ replicate 40 1))) \<and>
   length (replicate 40 (2::real) @ replicate 40 1 @ replicate 40 2 @ replicate 40 1 @
           replicate 40 2 @ replicate 40 1) = 240"
proof -
  have mfcc_shape: "\<forall>y mfccs. mfcc (example_libs [1, -1]) y SAMPLE_RATE N_MFCC = Inr mfccs
      \<longrightarrow> length mfccs = N_MFCC"
    by (auto simp: example_libs_def)
  have delta_shape: "\<forall>data order d. delta (example_libs [1, -1]) data order = Inr d
      \<longrightarrow> length d = length data"
    by (auto simp: example_libs_def)
  note produced = example_extract_features [OF example_not_too_quiet, of "''RIFF''"]
  from feature_vector_layout [OF mfcc_shape delta_shape produced] produced
  show ?thesis by blast
qed

section \<open>Successful predictions\<close>

text \<open>
  C5. In every successful result the confidence is the value that the returned
  probability mapping holds at the predicted label, provided the labels of the label
  decoder are pairwise different (it is a set of labels).
\<close>

theorem confidence_is_probability_of_label:
  assumes "predict_emotion lib g file = (t, Inr r)" and "valid r"
    and "label_encoder g = Some le" and "distinct (le_classes le)"
  shows "all_probabilities r (emotion r) = Some (confidence r)"
proof -
  from predict_emotion_InrD [OF assms(1)] assms(3) obtain m sc where
    cases: "r = invalid_format_response \<or> (\<exists>e. r = processing_error_response e) \<or>
      (\<exists>features t'. predict_body m le sc features = (t', Inr r))"
    by (metis option.inject)
  have "\<not> valid invalid_format_response" by (simp add: invalid_format_response_def)
  moreover have "\<not> valid (processing_error_response e)" for e
    by (rule processing_error_response_fields)
  ultimately obtain features t' where body: "predict_body m le sc features = (t', Inr r)"
    using cases assms(2) by auto
  have "\<not> valid invalid_audio_response" by (simp add: invalid_audio_response_def)
  with predict_body_InrD [OF body] assms(2) obtain prediction probabilities emotion' confidence'
    all_probs where
    label: "inverse_transform le prediction = Inr emotion'" and
    conf: "np_index probabilities prediction = Inr confidence'" and
    dict: "probability_dict le (enumerate 0 probabilities) Map.empty = Inr all_probs" and
    r: "r = \<lparr>emotion = emotion', confidence = confidence',
             all_probabilities = all_probs, valid = True, error = None\<rparr>"
    by auto
  from inverse_transform_InrD [OF label] have
    nonneg: "0 \<le> prediction" and em: "emotion' = le_classes le ! nat prediction"
    by simp_all
  from conf nonneg have
    inrange: "nat prediction < length probabilities" and
    c: "confidence' = probabilities ! nat prediction"
    by (auto simp: np_index_def split: if_splits)
  from probability_dict_value [OF dict assms(4) inrange]
  have "all_probs (le_classes le ! nat prediction) = Some (probabilities ! nat prediction)"
    by simp
  then show ?thesis by (simp add: r em c)
qed

theorem confidence_is_probability_of_label_witness:
  "predict_emotion (example_libs [1, -1]) (example_globals two_labels) example_upload =
     ([TmpWrite, LibrosaLoad, Mfcc, Delta 1, Delta 2, OsUnlink, ScalerTransform, ModelPredict,
       ModelPredictProba],
      Inr \<lparr>emotion = ''happy'', confidence = 3 / 4,
           all_probabilities = [''angry'' \<mapsto> 1 / 4, ''happy'' \<mapsto> 3 / 4],
           valid = True, error = None\<rparr>) \<and>
   [''angry'' \<mapsto> 1 / 4, ''happy'' \<mapsto> 3 / (4::real)] ''happy'' = Some (3 / 4)"
proof -
  have run: "predict_emotion (example_libs [1, -1]) (example_globals two_labels) example_upload =
     ([TmpWrite, LibrosaLoad, Mfcc, Delta 1, Delta 2, OsUnlink, ScalerTransform, ModelPredict,
       ModelPredictProba],
      Inr \<lparr>emotion = ''happy'', confidence = 3 / 4,
           all_probabilities = [''angry'' \<mapsto> 1 / 4, ''happy'' \<mapsto> 3 / 4],
           valid = True, error = None\<rparr>)"
    by (rule example_predict_emotion [OF example_not_too_quiet]) (simp_all add: two_labels_def)
  have le: "label_encoder (example_globals two_labels) = Some two_labels"
    by (simp add: example_globals_def)
  have dist: "distinct (le_classes two_labels)" by (simp add: two_labels_def)
  have v: "valid \<lparr>emotion = ''happy'', confidence = 3 / 4,
           all_probabilities = [''angry'' \<mapsto> 1 / 4, ''happy'' \<mapsto> 3 / 4],
           valid = True, error = None\<rparr>" by simp
  from confidence_is_probability_of_label [OF run v le dist] run show ?thesis by simp
qed

text \<open>
  C6, as amended. In every successful result the keys of the probability mapping are
  the first \<open>n\<close> labels of the label decoder, each once, where \<open>n\<close> is the number of
  probabilities that the classifier returned, and \<open>n\<close> is at most the number of labels;
  so every label is a key when the classifier returns as many probabilities as there are
  labels. The values of the mapping add up to the sum of the classifier's probabilities,
  hence to 1 within the tolerance whenever the classifier's vector does.
\<close>

theorem probability_mapping_keys_and_sum:
  assumes "predict_emotion lib g file = (t, Inr r)" and "valid r"
    and "model g = Some m" and "label_encoder g = Some le"
    and "distinct (le_classes le)"
  shows "\<exists>features_scaled probabilities.
     predict_proba m features_scaled = Inr probabilities \<and>
     length probabilities \<le> length (le_classes le) \<and>
     dom (all_probabilities r) = set (take (length probabilities) (le_classes le)) \<and>
     card (dom (all_probabilities r)) = length probabilities \<and>
     (length probabilities = length (le_classes le) \<longrightarrow>
        dom (all_probabilities r) = set (le_classes le)) \<and>
     (\<Sum>k \<in> dom (all_probabilities r). the (all_probabilities r k)) = sum_list probabilities \<and>
     (\<bar>sum_list probabilities - 1\<bar> \<le> 1 / 10000 \<longrightarrow>
        \<bar>(\<Sum>k \<in> dom (all_probabilities r). the (all_probabilities r k)) - 1\<bar> \<le> 1 / 10000)"
proof -
  from predict_emotion_InrD [OF assms(1)] assms(3,4) obtain sc where
    cases: "r = invalid_format_response \<or> (\<exists>e. r = processing_error_response e) \<or>
      (\<exists>features t'. predict_body m le sc features = (t', Inr r))"
    by (metis option.inject)
  have "\<not> valid invalid_format_response" by (simp add: invalid_format_response_def)
  moreover have "\<not> valid (processing_error_response e)" for e
    by (rule processing_error_response_fields)
  ultimately obtain features t' where body: "predict_body m le sc features = (t', Inr r)"
    using cases assms(2) by auto
  have "\<not> valid invalid_audio_response" by (simp add: invalid_audio_response_def)
  with predict_body_InrD [OF body] assms(2) obtain features_scaled probabilities all_probs
    emotion' confidence' where
    proba: "predict_proba m features_scaled = Inr probabilities" and
    dict: "probability_dict le (enumerate 0 probabilities) Map.empty = Inr all_probs" and
    r: "r = \<lparr>emotion = emotion', confidence = confidence',
             all_probabilities = all_probs, valid = True, error = None\<rparr>"
    by auto
  have len: "length probabilities \<le> length (le_classes le)"
    using probability_dict_bound [OF dict] by (cases "probabilities = []") simp_all
  have dom: "dom all_probs = set (take (length probabilities) (le_classes le))"
    using probability_dict_dom [OF dict] by simp
  have "distinct (take (length probabilities) (le_classes le))"
    using assms(5) by simp
  then have card: "card (dom all_probs) = length probabilities"
    unfolding dom using len by (simp add: distinct_card)
  have sum: "(\<Sum>k \<in> dom all_probs. the (all_probs k)) = sum_list probabilities"
    by (rule probability_dict_sum [OF dict assms(5)])
  from proba len dom card sum show ?thesis
    unfolding r by (intro exI [of _ features_scaled] exI [of _ probabilities]) simp
qed

theorem probability_mapping_keys_and_sum_witness:
  "dom [''angry'' \<mapsto> 1 / 4, ''happy'' \<mapsto> 3 / (4::real)] = set (le_classes two_labels) \<and>
   (\<Sum>k \<in> dom [''angry'' \<mapsto> 1 / 4, ''happy'' \<mapsto> 3 / (4::real)].
      the ([''angry'' \<mapsto> 1 / 4, ''happy'' \<mapsto> 3 / (4::real)] k)) = 1"
proof -
  let ?d = "[''angry'' \<mapsto> 1 / 4, ''happy'' \<mapsto> 3 / (4::real)]"
  let ?r = "\<lparr>emotion = ''happy'', confidence = 3 / 4, all_probabilities = ?d,
            valid = True, error = None\<rparr>"
  have run: "predict_emotion (example_libs [1, -1]) (example_globals two_labels) example_upload =
     ([TmpWrite, LibrosaLoad, Mfcc, Delta 1, Delta 2, OsUnlink, ScalerTransform, ModelPredict,
       ModelPredictProba], Inr ?r)"
    by (rule example_predict_emotion [OF example_not_too_quiet]) (simp_all add: two_labels_def)
  have v: "valid ?r" by simp
  have m: "model (example_globals two_labels) = Some example_classifier"
    and le: "label_encoder (example_globals two_labels) = Some two_labels"
    by (simp_all add: example_globals_def)
  have dist: "distinct (le_classes two_labels)" by (simp add: two_labels_def)
  from probability_mapping_keys_and_sum [OF run v m le dist] obtain features_scaled ps where
    ps: "predict_proba example_classifier features_scaled = Inr ps" and
    keys: "length ps = length (le_classes two_labels) \<longrightarrow>
      dom (all_probabilities ?r) = set (le_classes two_labels)" and
    total: "(\<Sum>k \<in> dom (all_probabilities ?r). the (all_probabilities ?r k)) = sum_list ps"
    by blast
  from ps have "ps = [1 / 4, 3 / 4]" by (simp add: example_classifier_def)
  with keys total show ?thesis by (simp add: two_labels_def)
qed

text \<open>
  With the two-class classifier and three labels the installation starts, and the
  successful result has no entry for the third label.
\<close>

theorem probability_mapping_all_labels_counterexample:
  "load_models (example_dir three_labels) initial_globals = (None, example_globals three_labels) \<and>
   predict_emotion (example_libs [1, -1]) (example_globals three_labels) example_upload =
     ([TmpWrite, LibrosaLoad, Mfcc, Delta 1, Delta 2, OsUnlink, ScalerTransform, ModelPredict,
       ModelPredictProba],
      Inr \<lparr>emotion = ''happy'', confidence = 3 / 4,
           all_probabilities = [''angry'' \<mapsto> 1 / 4, ''happy'' \<mapsto> 3 / 4],
           valid = True, error = None\<rparr>) \<and>
   ''sad'' \<in> set (le_classes three_labels) \<and>
   ''sad'' \<notin> dom [''angry'' \<mapsto> 1 / 4, ''happy'' \<mapsto> 3 / (4::real)]"
proof -
  have "predict_emotion (example_libs [1, -1]) (example_globals three_labels) example_upload =
     ([TmpWrite, LibrosaLoad, Mfcc, Delta 1, Delta 2, OsUnlink, ScalerTransform, ModelPredict,
       ModelPredictProba],
      Inr \<lparr>emotion = ''happy'', confidence = 3 / 4,
           all_probabilities = [''angry'' \<mapsto> 1 / 4, ''happy'' \<mapsto> 3 / 4],
           valid = True, error = None\<rparr>)"
    by (rule example_predict_emotion [OF example_not_too_quiet])
      (simp_all add: three_labels_def)
  moreover have "load_models (example_dir three_labels) initial_globals =
      (None, example_globals three_labels)"
    by (rule example_load_models) (simp add: three_labels_def)
  moreover have "''sad'' \<in> set (le_classes three_labels)" by (simp add: three_labels_def)
  moreover have "''sad'' \<notin> dom [''angry'' \<mapsto> 1 / 4, ''happy'' \<mapsto> 3 / (4::real)]" by simp
  ultimately show ?thesis by blast
qed

section \<open>Failure responses\<close>

text \<open>
  C10. Every response with \<open>valid = False\<close>, from whichever of the three failure
  branches, has the empty string as emotion, confidence 0 and an empty probability
  mapping.
\<close>

theorem failure_payload_degenerate:
  assumes "predict_emotion lib g file = (t, Inr r)" and "\<not> valid r"
  shows "emotion r = [] \<and> confidence r = 0 \<and> all_probabilities r = Map.empty"
proof -
  from predict_emotion_InrD [OF assms(1)] obtain m le sc where
    cases: "r = invalid_format_response \<or> (\<exists>e. r = processing_error_response e) \<or>
      (\<exists>features t'. predict_body m le sc features = (t', Inr r))"
    by blast
  then consider (format) "r = invalid_format_response"
    | (processing) e where "r = processing_error_response e"
    | (body) features t' where "predict_body m le sc features = (t', Inr r)"
    by blast
  then show ?thesis
  proof cases
    case format
    then show ?thesis by (simp add: invalid_format_response_def)
  next
    case processing
    then show ?thesis by (cases e) (simp add: processing_error_response_def)
  next
    case body
    from predict_body_InrD [OF body] assms(2) have "r = invalid_audio_response" by auto
    then show ?thesis by (simp add: invalid_audio_response_def)
  qed
qed

theorem failure_payload_degenerate_witness:
  "emotion invalid_format_response = [] \<and> confidence invalid_format_response = 0 \<and>
   all_probabilities invalid_format_response = Map.empty"
  using failure_payload_degenerate [of "example_libs [1, -1]" "example_globals two_labels"
      "\<lparr>filename = ''clip.mp3'', content = ''ID3''\<rparr>" "[]" invalid_format_response]
  by (simp add: predict_emotion_def example_globals_def endswith_def invalid_format_response_def)

section \<open>Startup\<close>

text \<open>
  C2, as amended. Startup fails (the exception is printed and raised again) exactly when
  one of the three artifacts cannot be loaded or the loaded label decoder has no
  \<^verbatim>\<open>classes_\<close> attribute, which line 62 reads. After a failed load the exception is that
  of the load and the globals are left so that \<open>predict\<close> raises HTTP 500 instead of
  serving a prediction. When the three artifacts load, the globals hold exactly these
  artifacts, and startup succeeds whenever the label decoder has \<^verbatim>\<open>classes_\<close>, whatever
  the class counts are: no line compares the classifier with the label decoder.
\<close>

theorem load_models_outcome:
  "(fst (load_models dir initial_globals) = None \<longleftrightarrow>
      (\<exists>m le sc. emotion_classifier_joblib dir = Inr m \<and>
         label_encoder_joblib dir = Inr le \<and> scaler_joblib dir = Inr sc \<and> has_classes le)) \<and>
   (\<forall>m le sc. emotion_classifier_joblib dir = Inr m \<longrightarrow>
      label_encoder_joblib dir = Inr le \<longrightarrow> scaler_joblib dir = Inr sc \<longrightarrow>
      snd (load_models dir initial_globals) =
        \<lparr>model = Some m, label_encoder = Some le, scaler = Some sc\<rparr> \<and>
      (has_classes le \<longrightarrow> fst (load_models dir initial_globals) = None) \<and>
      (\<not> has_classes le \<longrightarrow> fst (load_models dir initial_globals) \<noteq> None)) \<and>
   (\<not> (\<exists>m le sc. emotion_classifier_joblib dir = Inr m \<and>
          label_encoder_joblib dir = Inr le \<and> scaler_joblib dir = Inr sc) \<longrightarrow>
      (\<exists>e. fst (load_models dir initial_globals) = Some e \<and>
         (emotion_classifier_joblib dir = Inl e \<or> label_encoder_joblib dir = Inl e \<or>
          scaler_joblib dir = Inl e)) \<and>
      (\<forall>lib file. predict_emotion lib (snd (load_models dir initial_globals)) file =
         ([], Inl (HTTPException 500 ''Models not loaded''))))"
proof (intro conjI allI impI)
  show "fst (load_models dir initial_globals) = None \<longleftrightarrow>
      (\<exists>m le sc. emotion_classifier_joblib dir = Inr m \<and>
         label_encoder_joblib dir = Inr le \<and> scaler_joblib dir = Inr sc \<and> has_classes le)"
    by (auto simp: load_models_def split: sum.splits)
next
  fix m le sc
  assume loads: "emotion_classifier_joblib dir = Inr m" "label_encoder_joblib dir = Inr le"
    "scaler_joblib dir = Inr sc"
  then show "snd (load_models dir initial_globals) =
        \<lparr>model = Some m, label_encoder = Some le, scaler = Some sc\<rparr>"
    by (simp add: load_models_def initial_globals_def)
  assume "has_classes le"
  with loads show "fst (load_models dir initial_globals) = None"
    by (simp add: load_models_def)
next
  fix m le sc
  assume "emotion_classifier_joblib dir = Inr m" "label_encoder_joblib dir = Inr le"
    "scaler_joblib dir = Inr sc" "\<not> has_classes le"
  then show "fst (load_models dir initial_globals) \<noteq> None"
    by (simp add: load_models_def)
next
  assume "\<not> (\<exists>m le sc. emotion_classifier_joblib dir = Inr m \<and>
          label_encoder_joblib dir = Inr le \<and> scaler_joblib dir = Inr sc)"
  then show "\<exists>e. fst (load_models dir initial_globals) = Some e \<and>
         (emotion_classifier_joblib dir = Inl e \<or> label_encoder_joblib dir = Inl e \<or>
          scaler_joblib dir = Inl e)"
    by (auto simp: load_models_def split: sum.splits)
next
  fix lib "file"
  assume "\<not> (\<exists>m le sc. emotion_classifier_joblib dir = Inr m \<and>
          label_encoder_joblib dir = Inr le \<and> scaler_joblib dir = Inr sc)"
  then have "scaler (snd (load_models dir initial_globals)) = None"
    by (auto simp: load_models_def initial_globals_def split: sum.splits)
  then show "predict_emotion lib (snd (load_models dir initial_globals)) file =
         ([], Inl (HTTPException 500 ''Models not loaded''))"
    by (simp add: predict_emotion_def split: option.splits)
qed

theorem load_models_outcome_witness:
  "load_models (example_dir three_labels) initial_globals =
     (None, \<lparr>model = Some example_classifier, label_encoder = Some three_labels,
             scaler = Some example_scaler\<rparr>) \<and>
   fst (load_models (example_dir (two_labels\<lparr>has_classes := False\<rparr>)) initial_globals) \<noteq> None \<and>
   predict_emotion (example_libs [1, -1])
      (snd (load_models
              ((example_dir two_labels)\<lparr>scaler_joblib := Inl (PyError ''No such file'')\<rparr>)
              initial_globals))
      example_upload =
     ([], Inl (HTTPException 500 ''Models not loaded''))"
proof -
  let ?broken = "(example_dir two_labels)\<lparr>scaler_joblib := Inl (PyError ''No such file'')\<rparr>"
  let ?unfitted = "example_dir (two_labels\<lparr>has_classes := False\<rparr>)"
  have "snd (load_models (example_dir three_labels) initial_globals) =
      \<lparr>model = Some example_classifier, label_encoder = Some three_labels,
       scaler = Some example_scaler\<rparr> \<and>
    fst (load_models (example_dir three_labels) initial_globals) = None"
    using load_models_outcome [of "example_dir three_labels"]
    by (simp add: example_dir_def three_labels_def)
  then have first: "load_models (example_dir three_labels) initial_globals =
     (None, \<lparr>model = Some example_classifier, label_encoder = Some three_labels,
             scaler = Some example_scaler\<rparr>)"
    by (simp add: prod_eq_iff)
  have second: "fst (load_models ?unfitted initial_globals) \<noteq> None"
    using load_models_outcome [of ?unfitted] by (simp add: example_dir_def)
  have "\<not> (\<exists>m le sc. emotion_classifier_joblib ?broken = Inr m \<and>
          label_encoder_joblib ?broken = Inr le \<and> scaler_joblib ?broken = Inr sc)"
    by simp
  with load_models_outcome [of ?broken]
  have third: "predict_emotion (example_libs [1, -1]) (snd (load_models ?broken initial_globals))
      example_upload = ([], Inl (HTTPException 500 ''Models not loaded''))"
    by blast
  from first second third show ?thesis by blast
qed

text \<open>
  A classifier with two classes next to a label decoder with three labels: startup
  succeeds and a prediction is served.
\<close>

theorem load_models_consistency_counterexample:
  "length (clf_classes example_classifier) = 2 \<and>
   length (le_classes three_labels) = 3 \<and>
   load_models (example_dir three_labels) initial_globals =
     (None, example_globals three_labels) \<and>
   snd (predict_emotion (example_libs [1, -1]) (example_globals three_labels) example_upload) =
     Inr \<lparr>emotion = ''happy'', confidence = 3 / 4,
          all_probabilities = [''angry'' \<mapsto> 1 / 4, ''happy'' \<mapsto> 3 / 4],
          valid = True, error = None\<rparr>"
proof -
  have fitted: "has_classes three_labels"
    and labels: "le_classes three_labels = ''angry'' # ''happy'' # [''sad'']"
    by (simp_all add: three_labels_def)
  from example_predict_emotion [OF example_not_too_quiet fitted labels]
    example_load_models [OF fitted]
  show ?thesis by (simp add: example_classifier_def three_labels_def)
qed

section \<open>Failures are answered, not raised\<close>







end
